theory Spec2Isabelle
  imports Main "HOL-Library.Word"
begin

section \<open>The declaration shim \<^verbatim>\<open>libkineto/src/oldWindowsKitCorrection.h\<close>\<close>

text \<open>
  The only source file of the repository is a C/C++ header that forward-declares the two
  Windows thread-description primitives. It is embedded line by line: every physical
  line of the file is one element of the list below, a preprocessor directive or a line
  of ordinary text split into its tokens. Blank lines are \<open>Text []\<close>.
\<close>

datatype token =
    Ident string    \<comment> \<open>an identifier as written in the file\<close>
  | Punct string    \<comment> \<open>a punctuator\<close>
  | StrLit string   \<comment> \<open>a string literal, without its quotes\<close>
  | Mac string      \<comment> \<open>an identifier the preprocessor found to be a defined macro\<close>

datatype line =
    PragmaOnce
  | Ifdef string
  | Endif
  | Define string
  | Text "token list"

definition oldWindowsKitCorrection_h :: "line list" where
  "oldWindowsKitCorrection_h =
    [ PragmaOnce,
      Text [],
      Ifdef ''__cplusplus'',
      Text [Ident ''extern'', StrLit ''C'', Punct ''{''],
      Endif,
      Text [],
      Text [Ident ''WINBASEAPI''],
      Text [Ident ''HRESULT''],
      Text [Ident ''WINAPI''],
      Text [Ident ''SetThreadDescription'', Punct ''(''],
      Text [Ident ''_In_'', Ident ''HANDLE'', Ident ''hThread'', Punct '',''],
      Text [Ident ''_In_'', Ident ''PCWSTR'', Ident ''lpThreadDescription''],
      Text [Punct '')'', Punct '';''],
      Text [],
      Text [Ident ''WINBASEAPI''],
      Text [Ident ''HRESULT''],
      Text [Ident ''WINAPI''],
      Text [Ident ''GetThreadDescription'', Punct ''(''],
      Text [Ident ''_In_'', Ident ''HANDLE'', Ident ''hThread'', Punct '',''],
      Text [Ident ''_Outptr_result_z_'', Ident ''PWSTR'', Punct ''*'',
            Ident ''ppszThreadDescription''],
      Text [Punct '')'', Punct '';''],
      Text [],
      Ifdef ''__cplusplus'',
      Text [Punct ''}''],
      Endif ]"

definition shim_path :: string where
  "shim_path = ''libkineto/src/oldWindowsKitCorrection.h''"

definition repo_files :: "string \<rightharpoonup> line list" where
  "repo_files = [shim_path \<mapsto> oldWindowsKitCorrection_h]"


subsection \<open>What a compiler does with the header: preprocessing\<close>

text \<open>
  The header has no behaviour of its own; the claims about it are claims about what a
  C or C++ translator makes of these lines. The fragment of the translator the header
  exercises is written out: conditional inclusion (\<^verbatim>\<open>#ifdef\<close>/\<^verbatim>\<open>#endif\<close>, with a stack
  for nesting), \<^verbatim>\<open>#pragma once\<close>, \<^verbatim>\<open>#define\<close> of an object-like macro, and the
  recognition of macro names in ordinary text. A macro name is kept as the mark
  \<open>Mac m\<close> rather than replaced: its replacement list belongs to the SDK, not to this
  repository.
\<close>

datatype cerror =
    FileNotFound string
  | EndifWithoutIf
  | UnterminatedConditional
  | UnknownTypeName string
  | SyntaxError
  | ConflictingDeclaration string

record pp_state =
  macros :: "string set"     \<comment> \<open>names of the macros defined so far\<close>
  once :: "string set"       \<comment> \<open>files that have executed \<^verbatim>\<open>#pragma once\<close>\<close>
  out :: "token list"        \<comment> \<open>the preprocessed token stream\<close>

definition active :: "bool list \<Rightarrow> bool" where
  "active stk = (False \<notin> set stk)"

fun classify :: "string set \<Rightarrow> token \<Rightarrow> token" where
  "classify M (Ident s) = (if s \<in> M then Mac s else Ident s)"
| "classify M t = t"

fun pp_lines :: "string \<Rightarrow> bool list \<Rightarrow> line list \<Rightarrow> pp_state \<Rightarrow> cerror + pp_state" where
  "pp_lines f stk [] st = (if stk = [] then Inr st else Inl UnterminatedConditional)"
| "pp_lines f stk (PragmaOnce # ls) st =
     pp_lines f stk ls (if active stk then st\<lparr>once := insert f (once st)\<rparr> else st)"
| "pp_lines f stk (Ifdef m # ls) st = pp_lines f ((m \<in> macros st) # stk) ls st"
| "pp_lines f [] (Endif # ls) st = Inl EndifWithoutIf"
| "pp_lines f (b # stk) (Endif # ls) st = pp_lines f stk ls st"
| "pp_lines f stk (Define m # ls) st =
     pp_lines f stk ls (if active stk then st\<lparr>macros := insert m (macros st)\<rparr> else st)"
| "pp_lines f stk (Text ts # ls) st =
     pp_lines f stk ls
       (if active stk then st\<lparr>out := out st @ map (classify (macros st)) ts\<rparr> else st)"

definition include_file :: "(string \<rightharpoonup> line list) \<Rightarrow> string \<Rightarrow> pp_state \<Rightarrow> cerror + pp_state" where
  "include_file fs f st =
     (if f \<in> once st then Inr st
      else case fs f of None \<Rightarrow> Inl (FileNotFound f) | Some ls \<Rightarrow> pp_lines f [] ls st)"

text \<open>A translation unit is the sequence of files it includes.\<close>

fun preprocess :: "(string \<rightharpoonup> line list) \<Rightarrow> string list \<Rightarrow> pp_state \<Rightarrow> cerror + pp_state" where
  "preprocess fs [] st = Inr st"
| "preprocess fs (f # fl) st =
     (case include_file fs f st of Inl e \<Rightarrow> Inl e | Inr st' \<Rightarrow> preprocess fs fl st')"


subsection \<open>What a compiler does with the header: declarations\<close>

text \<open>
  The preprocessed tokens are read as a sequence of function declarations, possibly
  inside \<^verbatim>\<open>extern "C" { ... }\<close> blocks. A declaration is
  \<^verbatim>\<open>marks type marks name ( parameter , ... ) ;\<close> and a parameter is
  \<^verbatim>\<open>marks type *... name\<close> with the name optional. The set \<open>T\<close> holds the typedef
  names the environment's headers have introduced; an identifier in type position
  that is not in \<open>T\<close> is an error, as it is for a C compiler.
\<close>

record param_decl =
  annots :: "string list"        \<comment> \<open>macro marks before the type (SAL annotations)\<close>
  ptype :: string
  stars :: nat                   \<comment> \<open>number of \<^verbatim>\<open>*\<close> after the type\<close>
  pname :: "string option"

record fun_decl =
  pre_marks :: "string list"     \<comment> \<open>macro marks before the return type\<close>
  ret :: string
  post_marks :: "string list"    \<comment> \<open>macro marks between return type and name\<close>
  fname :: string
  params :: "param_decl list"
  c_linkage :: bool              \<comment> \<open>the name has C language linkage\<close>

fun take_macs :: "token list \<Rightarrow> string list \<times> token list" where
  "take_macs (Mac m # ts) = (case take_macs ts of (ms, r) \<Rightarrow> (m # ms, r))"
| "take_macs ts = ([], ts)"

fun take_stars :: "token list \<Rightarrow> nat \<times> token list" where
  "take_stars (Punct p # ts) =
     (if p = ''*'' then (case take_stars ts of (n, r) \<Rightarrow> (Suc n, r)) else (0, Punct p # ts))"
| "take_stars ts = (0, ts)"

definition parse_param :: "string set \<Rightarrow> token list \<Rightarrow> cerror + param_decl" where
  "parse_param T ts =
     (case take_macs ts of
        (as, Ident t # r) \<Rightarrow>
          if t \<in> T then
            (case take_stars r of
               (n, []) \<Rightarrow> Inr \<lparr>annots = as, ptype = t, stars = n, pname = None\<rparr>
             | (n, [Ident x]) \<Rightarrow>
                 if x \<in> T then Inl SyntaxError
                 else Inr \<lparr>annots = as, ptype = t, stars = n, pname = Some x\<rparr>
             | _ \<Rightarrow> Inl SyntaxError)
          else Inl (UnknownTypeName t)
      | _ \<Rightarrow> Inl SyntaxError)"

fun split_commas :: "token list \<Rightarrow> token list \<Rightarrow> token list list" where
  "split_commas acc [] = [rev acc]"
| "split_commas acc (t # ts) =
     (if t = Punct '','' then rev acc # split_commas [] ts else split_commas (t # acc) ts)"

fun parse_params :: "string set \<Rightarrow> token list list \<Rightarrow> cerror + param_decl list" where
  "parse_params T [] = Inr []"
| "parse_params T (p # ps) =
     (case parse_param T p of
        Inl e \<Rightarrow> Inl e
      | Inr d \<Rightarrow> (case parse_params T ps of Inl e \<Rightarrow> Inl e | Inr ds \<Rightarrow> Inr (d # ds)))"

definition parse_fdecl :: "string set \<Rightarrow> bool \<Rightarrow> token list \<Rightarrow> cerror + fun_decl" where
  "parse_fdecl T cl ts =
     (case take_macs ts of
        (pre, Ident t # r1) \<Rightarrow>
          if t \<notin> T then Inl (UnknownTypeName t)
          else
            (case take_macs r1 of
               (post, Ident n # Punct p # r2) \<Rightarrow>
                 if n \<in> T \<or> p \<noteq> ''('' \<or> r2 = [] \<or> last r2 \<noteq> Punct '')'' then Inl SyntaxError
                 else
                   (case parse_params T
                           (if butlast r2 = [] then [] else split_commas [] (butlast r2)) of
                      Inl e \<Rightarrow> Inl e
                    | Inr ps \<Rightarrow>
                        Inr \<lparr>pre_marks = pre, ret = t, post_marks = post, fname = n,
                             params = ps, c_linkage = cl\<rparr>)
             | _ \<Rightarrow> Inl SyntaxError)
      | _ \<Rightarrow> Inl SyntaxError)"

text \<open>
  \<open>parse_items\<close> walks the token stream; \<open>acc\<close> holds, reversed, the tokens of the
  declaration being read and \<open>depth\<close> counts the open \<^verbatim>\<open>extern "C"\<close> blocks. A
  declaration has C language linkage when the unit is compiled as C, or as C++ inside
  such a block. \<^verbatim>\<open>extern "C" {\<close> is not C: there it is a syntax error.
\<close>

fun parse_items ::
  "string set \<Rightarrow> bool \<Rightarrow> nat \<Rightarrow> token list \<Rightarrow> token list \<Rightarrow> cerror + fun_decl list" where
  "parse_items T cpp depth acc [] =
     (if acc = [] \<and> depth = 0 then Inr [] else Inl SyntaxError)"
| "parse_items T cpp depth acc (Punct p # ts) =
     (if p = '';'' then
        (case parse_fdecl T (\<not> cpp \<or> 0 < depth) (rev acc) of
           Inl e \<Rightarrow> Inl e
         | Inr d \<Rightarrow>
             (case parse_items T cpp depth [] ts of
                Inl e \<Rightarrow> Inl e
              | Inr ds \<Rightarrow> Inr (d # ds)))
      else if p = ''{'' \<and> acc = [StrLit ''C'', Ident ''extern''] then
        (if cpp then parse_items T cpp (Suc depth) [] ts else Inl SyntaxError)
      else if p = ''}'' \<and> acc = [] then
        (if depth = 0 then Inl SyntaxError else parse_items T cpp (depth - 1) [] ts)
      else parse_items T cpp depth (Punct p # acc) ts)"
| "parse_items T cpp depth acc (t # ts) = parse_items T cpp depth (t # acc) ts"

text \<open>
  A build environment is what the translation unit has seen before the shim: the
  macros defined (\<^verbatim>\<open>__cplusplus\<close> among them when the unit is C++) and the typedef
  names declared. \<open>translate\<close> runs both phases on a list of included files.
\<close>

definition translate ::
  "(string \<rightharpoonup> line list) \<Rightarrow> string set \<Rightarrow> string set \<Rightarrow> string list \<Rightarrow> cerror + fun_decl list" where
  "translate fs M T tu =
     (case preprocess fs tu \<lparr>macros = M, once = {}, out = []\<rparr> of
        Inl e \<Rightarrow> Inl e
      | Inr st \<Rightarrow> parse_items T (''__cplusplus'' \<in> M) 0 [] (out st))"

text \<open>
  Declaring a function whose name is already in scope is a redeclaration: legal, and
  without effect, when the signature is the one in scope; an error otherwise. The
  signature is everything a caller and the linker depend on: marks, return type,
  parameter types and language linkage. Parameter names and annotations are not
  part of it.
\<close>

type_synonym signature = "string list \<times> string \<times> string list \<times> (string \<times> nat) list \<times> bool"

definition signature_of :: "fun_decl \<Rightarrow> signature" where
  "signature_of d =
     (pre_marks d, ret d, post_marks d, map (\<lambda>p. (ptype p, stars p)) (params d), c_linkage d)"

definition declare_fun :: "fun_decl \<Rightarrow> (string \<rightharpoonup> signature) \<Rightarrow> cerror + (string \<rightharpoonup> signature)" where
  "declare_fun d sc =
     (case sc (fname d) of
        None \<Rightarrow> Inr (sc(fname d \<mapsto> signature_of d))
      | Some s \<Rightarrow> if s = signature_of d then Inr sc else Inl (ConflictingDeclaration (fname d)))"

fun declare_all :: "fun_decl list \<Rightarrow> (string \<rightharpoonup> signature) \<Rightarrow> cerror + (string \<rightharpoonup> signature)" where
  "declare_all [] sc = Inr sc"
| "declare_all (d # ds) sc =
     (case declare_fun d sc of Inl e \<Rightarrow> Inl e | Inr sc' \<Rightarrow> declare_all ds sc')"


subsection \<open>The text of the two declarations and the environment they rely on\<close>

text \<open>
  Lines 7 to 13 and lines 15 to 21 of the header, each as one token sequence without
  its final semicolon, and the token stream the preprocessor makes of the whole file
  when the set of defined macros is \<open>M\<close>.
\<close>

definition set_decl_text :: "token list" where
  "set_decl_text =
     [Ident ''WINBASEAPI'', Ident ''HRESULT'', Ident ''WINAPI'', Ident ''SetThreadDescription'',
      Punct ''('', Ident ''_In_'', Ident ''HANDLE'', Ident ''hThread'', Punct '','',
      Ident ''_In_'', Ident ''PCWSTR'', Ident ''lpThreadDescription'', Punct '')'']"

definition get_decl_text :: "token list" where
  "get_decl_text =
     [Ident ''WINBASEAPI'', Ident ''HRESULT'', Ident ''WINAPI'', Ident ''GetThreadDescription'',
      Punct ''('', Ident ''_In_'', Ident ''HANDLE'', Ident ''hThread'', Punct '','',
      Ident ''_Outptr_result_z_'', Ident ''PWSTR'', Punct ''*'',
      Ident ''ppszThreadDescription'', Punct '')'']"

definition shim_tokens :: "string set \<Rightarrow> token list" where
  "shim_tokens M =
     (if ''__cplusplus'' \<in> M then [classify M (Ident ''extern''), StrLit ''C'', Punct ''{'']
      else [])
     @ map (classify M) set_decl_text @ [Punct '';'']
     @ map (classify M) get_decl_text @ [Punct '';'']
     @ (if ''__cplusplus'' \<in> M then [Punct ''}''] else [])"

text \<open>
  The header is written for a unit that has already included the Windows SDK base
  headers. Those are not part of the repository, so they are a parameter: \<open>M\<close> and
  \<open>T\<close> form such an environment when the four marks are macros, the four type names
  are typedef names, and no other word of the header has been taken over as a macro
  or a type name. Any further macro, \<^verbatim>\<open>__cplusplus\<close> or an SDK version macro, may or
  may not be defined.
\<close>

definition windows_sdk_env :: "string set \<Rightarrow> string set \<Rightarrow> bool" where
  "windows_sdk_env M T \<longleftrightarrow>
     ''WINBASEAPI'' \<in> M \<and> ''WINAPI'' \<in> M \<and> ''_In_'' \<in> M \<and> ''_Outptr_result_z_'' \<in> M \<and>
     ''HRESULT'' \<in> T \<and> ''HANDLE'' \<in> T \<and> ''PCWSTR'' \<in> T \<and> ''PWSTR'' \<in> T \<and>
     ''HRESULT'' \<notin> M \<and> ''HANDLE'' \<notin> M \<and> ''PCWSTR'' \<notin> M \<and> ''PWSTR'' \<notin> M \<and>
     ''extern'' \<notin> M \<and>
     ''SetThreadDescription'' \<notin> M \<and> ''GetThreadDescription'' \<notin> M \<and>
     ''hThread'' \<notin> M \<and> ''lpThreadDescription'' \<notin> M \<and> ''ppszThreadDescription'' \<notin> M \<and>
     ''SetThreadDescription'' \<notin> T \<and> ''GetThreadDescription'' \<notin> T \<and>
     ''hThread'' \<notin> T \<and> ''lpThreadDescription'' \<notin> T \<and> ''ppszThreadDescription'' \<notin> T"

text \<open>A smallest such environment, for C and for C++, and the signatures the SDK gives.\<close>

definition sdk_macros :: "string set" where
  "sdk_macros = {''WINBASEAPI'', ''WINAPI'', ''_In_'', ''_Outptr_result_z_''}"

definition sdk_macros_cpp :: "string set" where
  "sdk_macros_cpp = insert ''__cplusplus'' sdk_macros"

definition sdk_types :: "string set" where
  "sdk_types = {''HANDLE'', ''HRESULT'', ''PCWSTR'', ''PWSTR''}"

definition sdk_set_signature :: signature where
  "sdk_set_signature =
     ([''WINBASEAPI''], ''HRESULT'', [''WINAPI''], [(''HANDLE'', 0), (''PCWSTR'', 0)], True)"

definition sdk_get_signature :: signature where
  "sdk_get_signature =
     ([''WINBASEAPI''], ''HRESULT'', [''WINAPI''], [(''HANDLE'', 0), (''PWSTR'', 1)], True)"

definition sdk_scope :: "string \<rightharpoonup> signature" where
  "sdk_scope = [''SetThreadDescription'' \<mapsto> sdk_set_signature,
                ''GetThreadDescription'' \<mapsto> sdk_get_signature]"


section \<open>The thread naming facility\<close>

text \<open>
  The facility that calls the two primitives (\<open>SetThreadName\<close>, \<open>GetThreadName\<close> and
  the platform backends) is not among the source files, and the primitives themselves
  are implemented by the operating system. Everything in this section is therefore
  written from the specification's sections 3, 4.2, 4.3 and 7.
\<close>

type_synonym ThreadHandle = nat
type_synonym ThreadName = string
type_synonym HRESULT = "32 word"

text \<open>Modelled from the spec: the status code of a native call; as for every
  \<^verbatim>\<open>HRESULT\<close>, a negative value reports failure.\<close>

definition FAILED :: "HRESULT \<Rightarrow> bool" where
  "FAILED hr \<longleftrightarrow> sint hr < 0"

text \<open>Modelled from the spec: the status code of a successful native call.\<close>

definition S_OK :: HRESULT where
  "S_OK = 0"

text \<open>Modelled from the spec: the status code the system reports for a handle that
  names no live thread.\<close>

definition E_HANDLE :: HRESULT where
  "E_HANDLE = 0x80070006"

text \<open>Modelled from the spec: the error taxonomy of section 7. \<open>NativeFailure\<close> keeps
  the platform's status code.\<close>

datatype NamingError = Unsupported | InvalidName | NativeFailure HRESULT | NotFound

text \<open>Modelled from the spec: what a platform does with a name longer than its limit
  (section 3: bounded on some platforms, unbounded on others; section 4.2: truncation;
  section 7: strict platforms reject).\<close>

datatype LengthRule = Unbounded | Truncating nat | Rejecting nat

text \<open>Modelled from the spec: a platform backend's build-time configuration
  (section 4.2). \<open>has_primitive\<close> is false on the platforms where both operations are
  the documented no-op.\<close>

record Platform =
  has_primitive :: bool
  length_rule :: LengthRule
  representable :: "char \<Rightarrow> bool"
  cross_thread_read :: bool

text \<open>Modelled from the spec: the operating system's side. \<open>descriptions\<close> holds the
  name slot of every live thread (section 3: one name per live thread, empty until
  set); \<open>set_status\<close> and \<open>get_status\<close> are the status codes the system is going to
  report for a call on a live thread, which the facility cannot influence.\<close>

record OS =
  descriptions :: "ThreadHandle \<rightharpoonup> ThreadName"
  set_status :: "ThreadHandle \<Rightarrow> HRESULT"
  get_status :: "ThreadHandle \<Rightarrow> HRESULT"

text \<open>Modelled from the spec: the native set primitive the header declares (section 6:
  a thread handle and a text in, a status code out). It overwrites the slot of a live
  thread when it reports success and changes nothing otherwise.\<close>

definition SetThreadDescription :: "OS \<Rightarrow> ThreadHandle \<Rightarrow> ThreadName \<Rightarrow> HRESULT \<times> OS" where
  "SetThreadDescription os hThread lpThreadDescription =
     (if descriptions os hThread = None then (E_HANDLE, os)
      else if FAILED (set_status os hThread) then (set_status os hThread, os)
      else (set_status os hThread,
            os\<lparr>descriptions := (descriptions os)(hThread \<mapsto> lpThreadDescription)\<rparr>))"

text \<open>Modelled from the spec: the native get primitive the header declares (section 6:
  a thread handle in, a status code and a text buffer out). The buffer is the slot's
  content on success and empty on failure.\<close>

definition GetThreadDescription :: "OS \<Rightarrow> ThreadHandle \<Rightarrow> HRESULT \<times> ThreadName" where
  "GetThreadDescription os hThread =
     (case descriptions os hThread of
        None \<Rightarrow> (E_HANDLE, [])
      | Some d \<Rightarrow>
          if FAILED (get_status os hThread) then (get_status os hThread, [])
          else (get_status os hThread, d))"


text \<open>Modelled from the spec: a name is valid when every character is representable in
  the platform's native text encoding (section 4.2).\<close>

definition valid_name :: "Platform \<Rightarrow> ThreadName \<Rightarrow> bool" where
  "valid_name p name \<longleftrightarrow> list_all (representable p) name"

text \<open>Modelled from the spec: the one native call of the write path with its status
  normalised (section 7: a failure reported by the system becomes \<open>NativeFailure\<close>
  with the status code kept).\<close>

definition native_set :: "OS \<Rightarrow> ThreadHandle \<Rightarrow> ThreadName \<Rightarrow> (NamingError + unit) \<times> OS" where
  "native_set os self name =
     (let r = SetThreadDescription os self name
      in if FAILED (fst r) then (Inl (NativeFailure (fst r)), snd r) else (Inr (), snd r))"

text \<open>Modelled from the spec: \<open>set_current_thread_name\<close> of section 4.2. \<open>self\<close> is the
  calling thread. Without a native primitive it is a silent success; a name that is not
  representable, or too long on a rejecting platform, is \<open>InvalidName\<close>; on a
  truncating platform the name is cut to the limit.\<close>

definition set_current_thread_name ::
  "Platform \<Rightarrow> OS \<Rightarrow> ThreadHandle \<Rightarrow> ThreadName \<Rightarrow> (NamingError + unit) \<times> OS" where
  "set_current_thread_name p os self name =
     (if \<not> has_primitive p then (Inr (), os)
      else if \<not> valid_name p name then (Inl InvalidName, os)
      else case length_rule p of
             Unbounded \<Rightarrow> native_set os self name
           | Truncating L \<Rightarrow> native_set os self (take L name)
           | Rejecting L \<Rightarrow>
               if L < length name then (Inl InvalidName, os) else native_set os self name)"

text \<open>Modelled from the spec: \<open>get_thread_name\<close> of section 4.2. Without a native
  primitive it is the empty name; another thread's name on a platform that cannot read
  it is \<open>Unsupported\<close>; a handle of a thread that no longer exists is \<open>NotFound\<close>;
  a failure reported by the system is \<open>NativeFailure\<close>.\<close>

definition get_thread_name ::
  "Platform \<Rightarrow> OS \<Rightarrow> ThreadHandle \<Rightarrow> ThreadHandle \<Rightarrow> NamingError + ThreadName" where
  "get_thread_name p os self handle =
     (if \<not> has_primitive p then Inr []
      else if handle \<noteq> self \<and> \<not> cross_thread_read p then Inl Unsupported
      else if descriptions os handle = None then Inl NotFound
      else let r = GetThreadDescription os handle
           in if FAILED (fst r) then Inl (NativeFailure (fst r)) else Inr (snd r))"

text \<open>Modelled from the spec: the public call surface of sections 4.3 and 6, which
  dispatches to the active backend.\<close>

definition SetThreadName ::
  "Platform \<Rightarrow> OS \<Rightarrow> ThreadHandle \<Rightarrow> ThreadName \<Rightarrow> (NamingError + unit) \<times> OS" where
  "SetThreadName p os self name = set_current_thread_name p os self name"

definition GetThreadName ::
  "Platform \<Rightarrow> OS \<Rightarrow> ThreadHandle \<Rightarrow> ThreadHandle \<Rightarrow> NamingError + ThreadName" where
  "GetThreadName p os self handle = get_thread_name p os self handle"

text \<open>Sample configurations: a no-op backend, a backend over the Windows primitive
  (no length limit, any thread readable), a system with two live unnamed threads that
  reports success, one whose set call fails and one whose get call fails.\<close>

definition noop_platform :: Platform where
  "noop_platform =
     \<lparr>has_primitive = False, length_rule = Unbounded, representable = (\<lambda>c. True),
      cross_thread_read = False\<rparr>"

definition windows_platform :: Platform where
  "windows_platform =
     \<lparr>has_primitive = True, length_rule = Unbounded, representable = (\<lambda>c. True),
      cross_thread_read = True\<rparr>"

definition os_two_threads :: OS where
  "os_two_threads =
     \<lparr>descriptions = [1 \<mapsto> [], 2 \<mapsto> []], set_status = (\<lambda>h. S_OK), get_status = (\<lambda>h. S_OK)\<rparr>"

definition os_set_fails :: OS where
  "os_set_fails =
     \<lparr>descriptions = [1 \<mapsto> [], 2 \<mapsto> []], set_status = (\<lambda>h. E_HANDLE),
      get_status = (\<lambda>h. S_OK)\<rparr>"



section \<open>Properties of the declaration shim\<close>

subsection \<open>Preprocessing the header\<close>

lemma pp_shim:
  "pp_lines f [] oldWindowsKitCorrection_h st =
     Inr (st\<lparr>once := insert f (once st), out := out st @ shim_tokens (macros st)\<rparr>)"
  by (simp add: oldWindowsKitCorrection_h_def shim_tokens_def active_def set_decl_text_def
        get_decl_text_def del: classify.simps(1))

lemma include_shim_first:
  "shim_path \<notin> once st \<Longrightarrow>
   include_file repo_files shim_path st =
     Inr (st\<lparr>once := insert shim_path (once st), out := out st @ shim_tokens (macros st)\<rparr>)"
  by (simp add: include_file_def repo_files_def pp_shim)

lemma include_shim_again:
  "shim_path \<in> once st \<Longrightarrow> include_file repo_files shim_path st = Inr st"
  by (simp add: include_file_def)

lemma preprocess_shim_again:
  "shim_path \<in> once st \<Longrightarrow> preprocess repo_files (replicate n shim_path) st = Inr st"
  by (induction n) (simp_all add: include_shim_again)

lemma preprocess_shim_repeated:
  "preprocess repo_files (replicate (Suc n) shim_path) \<lparr>macros = M, once = {}, out = []\<rparr> =
     Inr \<lparr>macros = M, once = {shim_path}, out = shim_tokens M\<rparr>"
  by (simp add: include_shim_first preprocess_shim_again)

lemma preprocess_shim:
  "preprocess repo_files [shim_path] \<lparr>macros = M, once = {}, out = []\<rparr> =
     Inr \<lparr>macros = M, once = {shim_path}, out = shim_tokens M\<rparr>"
  using preprocess_shim_repeated [of 0 M] by simp

lemma translate_shim_repeated:
  "translate repo_files M T (replicate (Suc n) shim_path) =
     parse_items T (''__cplusplus'' \<in> M) 0 [] (shim_tokens M)"
  unfolding translate_def preprocess_shim_repeated by simp

lemma translate_shim_tokens:
  "translate repo_files M T [shim_path] =
     parse_items T (''__cplusplus'' \<in> M) 0 [] (shim_tokens M)"
  using translate_shim_repeated [of M T 0] by simp

subsection \<open>Reading the declarations in an SDK environment\<close>

lemma parse_shim:
  assumes "windows_sdk_env M T"
  shows "parse_items T (''__cplusplus'' \<in> M) 0 [] (shim_tokens M) =
    Inr [\<lparr>pre_marks = [''WINBASEAPI''], ret = ''HRESULT'', post_marks = [''WINAPI''],
          fname = ''SetThreadDescription'',
          params = [\<lparr>annots = [''_In_''], ptype = ''HANDLE'', stars = 0,
                      pname = Some ''hThread''\<rparr>,
                    \<lparr>annots = [''_In_''], ptype = ''PCWSTR'', stars = 0,
                      pname = Some ''lpThreadDescription''\<rparr>],
          c_linkage = True\<rparr>,
         \<lparr>pre_marks = [''WINBASEAPI''], ret = ''HRESULT'', post_marks = [''WINAPI''],
          fname = ''GetThreadDescription'',
          params = [\<lparr>annots = [''_In_''], ptype = ''HANDLE'', stars = 0,
                      pname = Some ''hThread''\<rparr>,
                    \<lparr>annots = [''_Outptr_result_z_''], ptype = ''PWSTR'', stars = 1,
                      pname = Some ''ppszThreadDescription''\<rparr>],
          c_linkage = True\<rparr>]"
  using assms
  by (simp add: windows_sdk_env_def shim_tokens_def set_decl_text_def get_decl_text_def
        parse_fdecl_def parse_param_def)

lemma sdk_env_c: "windows_sdk_env sdk_macros sdk_types"
  by (simp add: windows_sdk_env_def sdk_macros_def sdk_types_def)

lemma sdk_env_cpp: "windows_sdk_env sdk_macros_cpp sdk_types"
  by (simp add: windows_sdk_env_def sdk_macros_cpp_def sdk_macros_def sdk_types_def)

text \<open>
  Claim C1. In every SDK environment, for C and for C++, the header declares exactly one
  function named \<^verbatim>\<open>SetThreadDescription\<close>; its return type is \<^verbatim>\<open>HRESULT\<close> and its
  parameters are, in this order and with no others, a \<^verbatim>\<open>HANDLE\<close> and a \<^verbatim>\<open>PCWSTR\<close>,
  both annotated \<^verbatim>\<open>_In_\<close>.
\<close>

theorem SetThreadDescription_declared_shape:
  assumes "windows_sdk_env M T"
  shows "\<exists>ds d. translate repo_files M T [shim_path] = Inr ds \<and>
           filter (\<lambda>d. fname d = ''SetThreadDescription'') ds = [d] \<and>
           ret d = ''HRESULT'' \<and>
           map (\<lambda>p. (ptype p, stars p)) (params d) = [(''HANDLE'', 0), (''PCWSTR'', 0)] \<and>
           map annots (params d) = [[''_In_''], [''_In_'']]"
  by (simp add: translate_shim_tokens parse_shim [OF assms])

theorem SetThreadDescription_declared_shape_witness:
  "windows_sdk_env sdk_macros_cpp sdk_types \<and>
   (\<exists>ds d. translate repo_files sdk_macros_cpp sdk_types [shim_path] = Inr ds \<and>
           filter (\<lambda>d. fname d = ''SetThreadDescription'') ds = [d] \<and>
           ret d = ''HRESULT'' \<and>
           map (\<lambda>p. (ptype p, stars p)) (params d) = [(''HANDLE'', 0), (''PCWSTR'', 0)] \<and>
           map annots (params d) = [[''_In_''], [''_In_'']])"
  using SetThreadDescription_declared_shape [OF sdk_env_cpp] sdk_env_cpp by simp

text \<open>
  Claim C2. In every SDK environment the header declares exactly one function named
  \<^verbatim>\<open>GetThreadDescription\<close>; it returns \<^verbatim>\<open>HRESULT\<close> and takes a \<^verbatim>\<open>HANDLE\<close>
  annotated \<^verbatim>\<open>_In_\<close> and then a \<^verbatim>\<open>PWSTR*\<close> (one level of pointer on \<^verbatim>\<open>PWSTR\<close>)
  annotated \<^verbatim>\<open>_Outptr_result_z_\<close>, the out-parameter that receives the text buffer.
\<close>

theorem GetThreadDescription_declared_shape:
  assumes "windows_sdk_env M T"
  shows "\<exists>ds d. translate repo_files M T [shim_path] = Inr ds \<and>
           filter (\<lambda>d. fname d = ''GetThreadDescription'') ds = [d] \<and>
           ret d = ''HRESULT'' \<and>
           map (\<lambda>p. (ptype p, stars p)) (params d) = [(''HANDLE'', 0), (''PWSTR'', 1)] \<and>
           map annots (params d) = [[''_In_''], [''_Outptr_result_z_'']]"
  by (simp add: translate_shim_tokens parse_shim [OF assms])

theorem GetThreadDescription_declared_shape_witness:
  "windows_sdk_env sdk_macros sdk_types \<and>
   (\<exists>ds d. translate repo_files sdk_macros sdk_types [shim_path] = Inr ds \<and>
           filter (\<lambda>d. fname d = ''GetThreadDescription'') ds = [d] \<and>
           ret d = ''HRESULT'' \<and>
           map (\<lambda>p. (ptype p, stars p)) (params d) = [(''HANDLE'', 0), (''PWSTR'', 1)] \<and>
           map annots (params d) = [[''_In_''], [''_Outptr_result_z_'']])"
  using GetThreadDescription_declared_shape [OF sdk_env_c] sdk_env_c by simp

lemma declare_all_present:
  "(\<And>d. d \<in> set ds \<Longrightarrow> sc (fname d) = Some (signature_of d)) \<Longrightarrow> declare_all ds sc = Inr sc"
  by (induction ds) (simp_all add: declare_fun_def)

lemma conditionals_of_shim:
  "{m. Ifdef m \<in> set oldWindowsKitCorrection_h} = {''__cplusplus''}"
  by (auto simp: oldWindowsKitCorrection_h_def)

text \<open>
  Claim C3. When the scope already holds both primitives with the signatures the header
  gives them, including the header leaves the scope as it was: both declarations are
  redeclarations and contribute nothing. The declarations are nevertheless emitted,
  whatever macros the environment defines: the only conditional in the header tests
  \<^verbatim>\<open>__cplusplus\<close>, none tests an SDK version.
\<close>

theorem shim_redeclares_without_effect:
  assumes "windows_sdk_env M T"
    and "sc ''SetThreadDescription'' = Some sdk_set_signature"
    and "sc ''GetThreadDescription'' = Some sdk_get_signature"
  shows "\<exists>ds. translate repo_files M T [shim_path] = Inr ds \<and>
           map fname ds = [''SetThreadDescription'', ''GetThreadDescription''] \<and>
           declare_all ds sc = Inr sc \<and>
           {m. Ifdef m \<in> set oldWindowsKitCorrection_h} = {''__cplusplus''}"
  using assms(2,3)
  by (simp add: translate_shim_tokens parse_shim [OF assms(1)] conditionals_of_shim
        declare_fun_def signature_of_def sdk_set_signature_def sdk_get_signature_def)

theorem shim_redeclares_without_effect_witness:
  "windows_sdk_env sdk_macros_cpp sdk_types \<and>
   sdk_scope ''SetThreadDescription'' = Some sdk_set_signature \<and>
   sdk_scope ''GetThreadDescription'' = Some sdk_get_signature \<and>
   (\<exists>ds. translate repo_files sdk_macros_cpp sdk_types [shim_path] = Inr ds \<and>
           map fname ds = [''SetThreadDescription'', ''GetThreadDescription''] \<and>
           declare_all ds sdk_scope = Inr sdk_scope \<and>
           {m. Ifdef m \<in> set oldWindowsKitCorrection_h} = {''__cplusplus''})"
proof -
  have s: "sdk_scope ''SetThreadDescription'' = Some sdk_set_signature"
    by (simp add: sdk_scope_def)
  have g: "sdk_scope ''GetThreadDescription'' = Some sdk_get_signature"
    by (simp add: sdk_scope_def)
  from shim_redeclares_without_effect [OF sdk_env_cpp s g] sdk_env_cpp s g
  show ?thesis by blast
qed

text \<open>The other half of the contract: a scope without the two names gains exactly them.\<close>

lemma shim_declares_when_missing:
  assumes "windows_sdk_env M T"
    and "sc ''SetThreadDescription'' = None" and "sc ''GetThreadDescription'' = None"
  shows "\<exists>ds. translate repo_files M T [shim_path] = Inr ds \<and>
           declare_all ds sc =
             Inr (sc(''SetThreadDescription'' \<mapsto> sdk_set_signature,
                     ''GetThreadDescription'' \<mapsto> sdk_get_signature))"
  using assms(2,3)
  by (simp add: translate_shim_tokens parse_shim [OF assms(1)]
        declare_fun_def signature_of_def sdk_set_signature_def sdk_get_signature_def)

text \<open>
  Claim C4. Both declarations carry the mark \<^verbatim>\<open>WINBASEAPI\<close> before the return type and
  the mark \<^verbatim>\<open>WINAPI\<close> before the name, and both have C language linkage. In a C++
  unit the preprocessed text is the two declarations between \<^verbatim>\<open>extern "C" {\<close> and
  \<^verbatim>\<open>}\<close>; in a C unit it is the two declarations alone.
\<close>

theorem shim_marks_and_linkage:
  assumes "windows_sdk_env M T"
  shows "\<exists>st ds.
           preprocess repo_files [shim_path] \<lparr>macros = M, once = {}, out = []\<rparr> = Inr st \<and>
           translate repo_files M T [shim_path] = Inr ds \<and>
           map fname ds = [''SetThreadDescription'', ''GetThreadDescription''] \<and>
           list_all (\<lambda>d. pre_marks d = [''WINBASEAPI''] \<and> post_marks d = [''WINAPI''] \<and>
                          c_linkage d) ds \<and>
           out st =
             (if ''__cplusplus'' \<in> M then [Ident ''extern'', StrLit ''C'', Punct ''{''] else [])
             @ map (classify M) (set_decl_text @ [Punct '';''] @ get_decl_text @ [Punct '';''])
             @ (if ''__cplusplus'' \<in> M then [Punct ''}''] else [])"
proof -
  have "''extern'' \<notin> M"
    using assms by (simp add: windows_sdk_env_def)
  then have toks: "shim_tokens M =
      (if ''__cplusplus'' \<in> M then [Ident ''extern'', StrLit ''C'', Punct ''{''] else [])
      @ map (classify M) (set_decl_text @ [Punct '';''] @ get_decl_text @ [Punct '';''])
      @ (if ''__cplusplus'' \<in> M then [Punct ''}''] else [])"
    by (simp add: shim_tokens_def)
  show ?thesis
    unfolding preprocess_shim translate_shim_tokens parse_shim [OF assms]
    using toks by simp
qed

theorem shim_marks_and_linkage_witness:
  "windows_sdk_env sdk_macros_cpp sdk_types \<and>
   (\<exists>st ds.
           preprocess repo_files [shim_path] \<lparr>macros = sdk_macros_cpp, once = {}, out = []\<rparr>
             = Inr st \<and>
           translate repo_files sdk_macros_cpp sdk_types [shim_path] = Inr ds \<and>
           map fname ds = [''SetThreadDescription'', ''GetThreadDescription''] \<and>
           list_all (\<lambda>d. pre_marks d = [''WINBASEAPI''] \<and> post_marks d = [''WINAPI''] \<and>
                          c_linkage d) ds \<and>
           out st =
             [Ident ''extern'', StrLit ''C'', Punct ''{'']
             @ map (classify sdk_macros_cpp)
                 (set_decl_text @ [Punct '';''] @ get_decl_text @ [Punct '';''])
             @ [Punct ''}''])"
proof -
  have c: "''__cplusplus'' \<in> sdk_macros_cpp"
    by (simp add: sdk_macros_cpp_def)
  from shim_marks_and_linkage [OF sdk_env_cpp] sdk_env_cpp c
  show ?thesis by simp
qed

text \<open>
  Claim C5. Including the header \<open>n + 1\<close> times in one translation unit gives the same
  declarations as including it once: each of the two functions is declared exactly
  once. After the first inclusion the file is marked by \<^verbatim>\<open>#pragma once\<close> and every
  later inclusion adds nothing.
\<close>

theorem shim_included_repeatedly:
  assumes "windows_sdk_env M T"
  shows "\<exists>ds. translate repo_files M T (replicate (Suc n) shim_path) = Inr ds \<and>
           translate repo_files M T [shim_path] = Inr ds \<and>
           length (filter (\<lambda>d. fname d = ''SetThreadDescription'') ds) = 1 \<and>
           length (filter (\<lambda>d. fname d = ''GetThreadDescription'') ds) = 1 \<and>
           length ds = 2"
  unfolding translate_shim_repeated translate_shim_tokens parse_shim [OF assms]
  by simp

theorem shim_included_repeatedly_witness:
  "windows_sdk_env sdk_macros sdk_types \<and>
   (\<exists>ds. translate repo_files sdk_macros sdk_types [shim_path, shim_path, shim_path] = Inr ds \<and>
           translate repo_files sdk_macros sdk_types [shim_path] = Inr ds \<and>
           length (filter (\<lambda>d. fname d = ''SetThreadDescription'') ds) = 1 \<and>
           length (filter (\<lambda>d. fname d = ''GetThreadDescription'') ds) = 1 \<and>
           length ds = 2)"
  using shim_included_repeatedly [OF sdk_env_c, of 2] sdk_env_c
  by (simp add: numeral_2_eq_2)

text \<open>
  The guard is what does it: the same lines without their first one, included twice,
  declare each function twice.
\<close>

lemma pp_unguarded:
  "pp_lines f [] (tl oldWindowsKitCorrection_h) st =
     Inr (st\<lparr>out := out st @ shim_tokens (macros st)\<rparr>)"
  by (simp add: oldWindowsKitCorrection_h_def shim_tokens_def active_def set_decl_text_def
        get_decl_text_def del: classify.simps(1))

lemma unguarded_shim_twice:
  assumes "windows_sdk_env M T"
  shows "\<exists>ds. translate [shim_path \<mapsto> tl oldWindowsKitCorrection_h] M T [shim_path, shim_path]
               = Inr ds \<and>
              map fname ds = [''SetThreadDescription'', ''GetThreadDescription'',
                              ''SetThreadDescription'', ''GetThreadDescription'']"
proof -
  have pp: "preprocess [shim_path \<mapsto> tl oldWindowsKitCorrection_h] [shim_path, shim_path]
              \<lparr>macros = M, once = {}, out = []\<rparr> =
            Inr \<lparr>macros = M, once = {}, out = shim_tokens M @ shim_tokens M\<rparr>"
    by (simp add: include_file_def pp_unguarded)
  show ?thesis
    unfolding translate_def pp using assms
    by (simp add: windows_sdk_env_def shim_tokens_def set_decl_text_def get_decl_text_def
          parse_fdecl_def parse_param_def)
qed


subsection \<open>What the header needs from its environment\<close>

lemma classify_Ident_not_Punct: "classify M (Ident s) \<noteq> Punct p"
  by simp

lemma Punct_not_classify_Ident: "Punct p \<noteq> classify M (Ident s)"
  by simp

lemma parse_items_decl:
  assumes "Punct '';'' \<notin> set ws" and "Punct ''{'' \<notin> set ws" and "Punct ''}'' \<notin> set ws"
  shows "parse_items T cpp depth acc (ws @ Punct '';'' # rest) =
           (case parse_fdecl T (\<not> cpp \<or> 0 < depth) (rev acc @ ws) of
              Inl e \<Rightarrow> Inl e
            | Inr d \<Rightarrow>
                (case parse_items T cpp depth [] rest of
                   Inl e \<Rightarrow> Inl e
                 | Inr ds \<Rightarrow> Inr (d # ds)))"
  using assms
proof (induction ws arbitrary: acc)
  case Nil
  then show ?case by simp
next
  case (Cons t ws)
  then have IH: "parse_items T cpp depth (t # acc) (ws @ Punct '';'' # rest) =
           (case parse_fdecl T (\<not> cpp \<or> 0 < depth) (rev (t # acc) @ ws) of
              Inl e \<Rightarrow> Inl e
            | Inr d \<Rightarrow>
                (case parse_items T cpp depth [] rest of
                   Inl e \<Rightarrow> Inl e
                 | Inr ds \<Rightarrow> Inr (d # ds)))"
    by simp
  have step: "parse_items T cpp depth acc ((t # ws) @ Punct '';'' # rest) =
              parse_items T cpp depth (t # acc) (ws @ Punct '';'' # rest)"
    using Cons.prems by (cases t) auto
  show ?case unfolding step IH by simp
qed

lemma decl_text_free_of_separators:
  "Punct '';'' \<notin> set (map (classify M) set_decl_text)"
  "Punct ''{'' \<notin> set (map (classify M) set_decl_text)"
  "Punct ''}'' \<notin> set (map (classify M) set_decl_text)"
  "Punct '';'' \<notin> set (map (classify M) get_decl_text)"
  "Punct ''{'' \<notin> set (map (classify M) get_decl_text)"
  "Punct ''}'' \<notin> set (map (classify M) get_decl_text)"
  by (simp_all add: set_decl_text_def get_decl_text_def Punct_not_classify_Ident
        del: classify.simps(1))

lemma parse_two_decls:
  "parse_items T cpp depth acc
     (map (classify M) set_decl_text @ Punct '';'' # map (classify M) get_decl_text
        @ Punct '';'' # rest) =
   (case parse_fdecl T (\<not> cpp \<or> 0 < depth) (rev acc @ map (classify M) set_decl_text) of
      Inl e \<Rightarrow> Inl e
    | Inr d1 \<Rightarrow>
        (case parse_fdecl T (\<not> cpp \<or> 0 < depth) (map (classify M) get_decl_text) of
           Inl e \<Rightarrow> Inl e
         | Inr d2 \<Rightarrow>
             (case parse_items T cpp depth [] rest of
                Inl e \<Rightarrow> Inl e
              | Inr ds \<Rightarrow> Inr (d1 # d2 # ds))))"
proof -
  let ?A = "map (classify M) set_decl_text" and ?B = "map (classify M) get_decl_text"
  have first: "parse_items T cpp depth acc (?A @ Punct '';'' # ?B @ Punct '';'' # rest) =
     (case parse_fdecl T (\<not> cpp \<or> 0 < depth) (rev acc @ ?A) of
        Inl e \<Rightarrow> Inl e
      | Inr d \<Rightarrow>
          (case parse_items T cpp depth [] (?B @ Punct '';'' # rest) of
             Inl e \<Rightarrow> Inl e
           | Inr ds \<Rightarrow> Inr (d # ds)))"
    by (rule parse_items_decl) (rule decl_text_free_of_separators)+
  have second: "parse_items T cpp depth [] (?B @ Punct '';'' # rest) =
     (case parse_fdecl T (\<not> cpp \<or> 0 < depth) (rev [] @ ?B) of
        Inl e \<Rightarrow> Inl e
      | Inr d \<Rightarrow>
          (case parse_items T cpp depth [] rest of
             Inl e \<Rightarrow> Inl e
           | Inr ds \<Rightarrow> Inr (d # ds)))"
    by (rule parse_items_decl) (rule decl_text_free_of_separators)+
  show ?thesis
    unfolding first second by (simp split: sum.splits)
qed

lemma parse_fdecl_not_declaration:
  "parse_fdecl T cl (Mac m # StrLit l # ts) = Inl SyntaxError"
  by (simp add: parse_fdecl_def)

lemma parse_shim_success:
  assumes "parse_items T (''__cplusplus'' \<in> M) 0 [] (shim_tokens M) = Inr ds"
  shows "\<exists>d1 d2. parse_fdecl T True (map (classify M) set_decl_text) = Inr d1 \<and>
                 parse_fdecl T True (map (classify M) get_decl_text) = Inr d2 \<and>
                 ds = [d1, d2]"
proof (cases "''__cplusplus'' \<in> M")
  case False
  with assms show ?thesis
    by (simp add: shim_tokens_def parse_two_decls split: sum.splits)
next
  case cpp: True
  show ?thesis
  proof (cases "''extern'' \<in> M")
    case True
    have "parse_items T True 0 [] (shim_tokens M) =
          parse_items T True 0 [Punct ''{'', StrLit ''C'', Mac ''extern'']
            (map (classify M) set_decl_text @ Punct '';'' # map (classify M) get_decl_text
               @ Punct '';'' # [Punct ''}''])"
      using cpp True by (simp add: shim_tokens_def)
    also have "\<dots> = Inl SyntaxError"
      unfolding parse_two_decls by (simp add: parse_fdecl_not_declaration)
    finally show ?thesis using assms cpp by simp
  next
    case False
    have "parse_items T True 0 [] (shim_tokens M) =
          parse_items T True (Suc 0) []
            (map (classify M) set_decl_text @ Punct '';'' # map (classify M) get_decl_text
               @ Punct '';'' # [Punct ''}''])"
      using cpp False by (simp add: shim_tokens_def)
    with assms cpp show ?thesis
      by (simp add: parse_two_decls split: sum.splits)
  qed
qed

lemma parse_param_needs:
  assumes "parse_param T [classify M (Ident a), classify M (Ident b), classify M (Ident c)] = Inr p"
  shows "a \<in> M \<union> T \<and> b \<in> M \<union> T"
  using assms
  by (cases "a \<in> M"; cases "b \<in> M"; cases "c \<in> M")
     (simp_all add: parse_param_def split: if_splits)

lemma parse_param_pointer_needs:
  assumes "parse_param T
             [classify M (Ident a), classify M (Ident b), Punct ''*'', classify M (Ident c)] = Inr p"
  shows "a \<in> M \<union> T \<and> b \<in> M \<union> T"
  using assms
  by (cases "a \<in> M"; cases "b \<in> M"; cases "c \<in> M")
     (simp_all add: parse_param_def split: if_splits)

lemma parse_fdecl_needs:
  assumes "parse_fdecl T cl
             (classify M (Ident a) # classify M (Ident b) # classify M (Ident c) #
              classify M (Ident n) # Punct ''('' # rest) = Inr d"
  shows "a \<in> M \<union> T \<and> b \<in> M \<union> T \<and> c \<in> M \<union> T \<and>
         (\<exists>ps. parse_params T (if butlast rest = [] then [] else split_commas [] (butlast rest))
                 = Inr ps)"
  using assms
  by (cases "a \<in> M"; cases "b \<in> M"; cases "c \<in> M"; cases "n \<in> M")
     (simp_all add: parse_fdecl_def split: if_splits sum.splits)

lemma parse_params_two:
  "parse_params T [p1, p2] = Inr ps \<Longrightarrow>
     \<exists>d1 d2. parse_param T p1 = Inr d1 \<and> parse_param T p2 = Inr d2"
  by (simp split: sum.splits)

lemma set_decl_needs:
  assumes "parse_fdecl T cl (map (classify M) set_decl_text) = Inr d"
  shows "''WINBASEAPI'' \<in> M \<union> T \<and> ''HRESULT'' \<in> M \<union> T \<and> ''WINAPI'' \<in> M \<union> T \<and>
         ''_In_'' \<in> M \<union> T \<and> ''HANDLE'' \<in> M \<union> T \<and> ''PCWSTR'' \<in> M \<union> T"
proof -
  let ?c = "\<lambda>s. classify M (Ident s)"
  have toks: "map (classify M) set_decl_text =
      ?c ''WINBASEAPI'' # ?c ''HRESULT'' # ?c ''WINAPI'' # ?c ''SetThreadDescription'' #
      Punct ''('' #
      [?c ''_In_'', ?c ''HANDLE'', ?c ''hThread'', Punct '','',
       ?c ''_In_'', ?c ''PCWSTR'', ?c ''lpThreadDescription'', Punct '')'']"
    by (simp add: set_decl_text_def del: classify.simps(1))
  from parse_fdecl_needs [OF assms [unfolded toks]]
  obtain ps where head: "''WINBASEAPI'' \<in> M \<union> T" "''HRESULT'' \<in> M \<union> T" "''WINAPI'' \<in> M \<union> T"
    and ps: "parse_params T
               [[?c ''_In_'', ?c ''HANDLE'', ?c ''hThread''],
                [?c ''_In_'', ?c ''PCWSTR'', ?c ''lpThreadDescription'']] = Inr ps"
    by (auto simp del: classify.simps(1) parse_params.simps
          simp add: classify_Ident_not_Punct)
  from parse_params_two [OF ps] obtain d1 d2
    where "parse_param T [?c ''_In_'', ?c ''HANDLE'', ?c ''hThread''] = Inr d1"
      and "parse_param T [?c ''_In_'', ?c ''PCWSTR'', ?c ''lpThreadDescription''] = Inr d2"
    by blast
  then have "''_In_'' \<in> M \<union> T" "''HANDLE'' \<in> M \<union> T" "''PCWSTR'' \<in> M \<union> T"
    by (blast dest: parse_param_needs)+
  with head show ?thesis by blast
qed

lemma get_decl_needs:
  assumes "parse_fdecl T cl (map (classify M) get_decl_text) = Inr d"
  shows "''_Outptr_result_z_'' \<in> M \<union> T \<and> ''PWSTR'' \<in> M \<union> T"
proof -
  let ?c = "\<lambda>s. classify M (Ident s)"
  have toks: "map (classify M) get_decl_text =
      ?c ''WINBASEAPI'' # ?c ''HRESULT'' # ?c ''WINAPI'' # ?c ''GetThreadDescription'' #
      Punct ''('' #
      [?c ''_In_'', ?c ''HANDLE'', ?c ''hThread'', Punct '','',
       ?c ''_Outptr_result_z_'', ?c ''PWSTR'', Punct ''*'', ?c ''ppszThreadDescription'',
       Punct '')'']"
    by (simp add: get_decl_text_def del: classify.simps(1))
  from parse_fdecl_needs [OF assms [unfolded toks]]
  obtain ps where ps: "parse_params T
               [[?c ''_In_'', ?c ''HANDLE'', ?c ''hThread''],
                [?c ''_Outptr_result_z_'', ?c ''PWSTR'', Punct ''*'',
                 ?c ''ppszThreadDescription'']] = Inr ps"
    by (auto simp del: classify.simps(1) parse_params.simps
          simp add: classify_Ident_not_Punct)
  from parse_params_two [OF ps] obtain d2
    where "parse_param T [?c ''_Outptr_result_z_'', ?c ''PWSTR'', Punct ''*'',
                          ?c ''ppszThreadDescription''] = Inr d2"
    by blast
  then show ?thesis
    by (blast dest: parse_param_pointer_needs)
qed

text \<open>
  Claim C10. The header defines nothing: it has no \<^verbatim>\<open>#define\<close>, and preprocessing it
  leaves the set of macros as it was. So whenever a unit that includes it translates
  without error, each of the eight names \<^verbatim>\<open>HANDLE\<close>, \<^verbatim>\<open>HRESULT\<close>, \<^verbatim>\<open>PCWSTR\<close>,
  \<^verbatim>\<open>PWSTR\<close>, \<^verbatim>\<open>WINBASEAPI\<close>, \<^verbatim>\<open>WINAPI\<close>, \<^verbatim>\<open>_In_\<close> and \<^verbatim>\<open>_Outptr_result_z_\<close> was
  already defined, as a macro or as a type name, by what the unit included before.
\<close>

theorem shim_needs_sdk_names:
  assumes "translate repo_files M T [shim_path] = Inr ds"
  shows "{''HANDLE'', ''HRESULT'', ''PCWSTR'', ''PWSTR'',
          ''WINBASEAPI'', ''WINAPI'', ''_In_'', ''_Outptr_result_z_''} \<subseteq> M \<union> T \<and>
         (\<exists>st. preprocess repo_files [shim_path] \<lparr>macros = M, once = {}, out = []\<rparr> = Inr st \<and>
               macros st = M) \<and>
         {m. Define m \<in> set oldWindowsKitCorrection_h} = {}"
proof -
  from assms have "parse_items T (''__cplusplus'' \<in> M) 0 [] (shim_tokens M) = Inr ds"
    by (simp only: translate_shim_tokens)
  from parse_shim_success [OF this] obtain d1 d2
    where "parse_fdecl T True (map (classify M) set_decl_text) = Inr d1"
      and "parse_fdecl T True (map (classify M) get_decl_text) = Inr d2"
    by blast
  then have names: "{''HANDLE'', ''HRESULT'', ''PCWSTR'', ''PWSTR'',
          ''WINBASEAPI'', ''WINAPI'', ''_In_'', ''_Outptr_result_z_''} \<subseteq> M \<union> T"
    using set_decl_needs [of T True M d1] get_decl_needs [of T True M d2] by blast
  have none: "{m. Define m \<in> set oldWindowsKitCorrection_h} = {}"
    by (simp add: oldWindowsKitCorrection_h_def)
  show ?thesis
    unfolding preprocess_shim using names none by simp
qed

theorem shim_needs_sdk_names_witness:
  "\<exists>ds. translate repo_files sdk_macros sdk_types [shim_path] = Inr ds \<and>
     {''HANDLE'', ''HRESULT'', ''PCWSTR'', ''PWSTR'',
      ''WINBASEAPI'', ''WINAPI'', ''_In_'', ''_Outptr_result_z_''} \<subseteq> sdk_macros \<union> sdk_types"
proof -
  obtain ds where ok: "translate repo_files sdk_macros sdk_types [shim_path] = Inr ds"
    by (simp add: translate_shim_tokens parse_shim [OF sdk_env_c])
  from shim_needs_sdk_names [OF ok] ok show ?thesis by blast
qed

text \<open>With nothing included before it, the header stops at its first word.\<close>

lemma shim_fails_without_sdk:
  "translate repo_files {} {} [shim_path] = Inl (UnknownTypeName ''WINBASEAPI'')"
  by (simp add: translate_shim_tokens shim_tokens_def set_decl_text_def get_decl_text_def
        parse_fdecl_def)

section \<open>Properties of the thread naming facility\<close>

lemma not_FAILED_S_OK: "\<not> FAILED S_OK"
  by (simp add: FAILED_def S_OK_def)

lemma FAILED_E_HANDLE: "FAILED E_HANDLE"
  by (simp add: FAILED_def E_HANDLE_def)


lemma native_set_frame:
  "native_set os a name = (r, os') \<Longrightarrow>
     set_status os' = set_status os \<and> get_status os' = get_status os \<and>
     (\<forall>b. b \<noteq> a \<longrightarrow> descriptions os' b = descriptions os b)"
  by (auto simp: native_set_def SetThreadDescription_def Let_def split: if_splits)

lemma set_current_thread_name_frame:
  "set_current_thread_name p os a name = (r, os') \<Longrightarrow>
     set_status os' = set_status os \<and> get_status os' = get_status os \<and>
     (\<forall>b. b \<noteq> a \<longrightarrow> descriptions os' b = descriptions os b)"
  unfolding set_current_thread_name_def
  by (auto split: if_splits LengthRule.splits dest: native_set_frame)




text \<open>
  Claim C7. On a backend without a native primitive, \<open>SetThreadName\<close> returns success
  for every name and leaves the system as it was, and \<open>GetThreadName\<close> returns success
  with the empty name for every handle.
\<close>

theorem noop_backend:
  assumes "\<not> has_primitive p"
  shows "SetThreadName p os self n = (Inr (), os) \<and> GetThreadName p os self h = Inr []"
  using assms
  by (simp add: SetThreadName_def GetThreadName_def set_current_thread_name_def
        get_thread_name_def)

theorem noop_backend_witness:
  "\<not> has_primitive noop_platform \<and>
   SetThreadName noop_platform os_two_threads 1 ''worker'' = (Inr (), os_two_threads) \<and>
   GetThreadName noop_platform os_two_threads 1 2 = Inr []"
proof -
  have h: "\<not> has_primitive noop_platform"
    by (simp add: noop_platform_def)
  from noop_backend [OF h, of os_two_threads 1 "''worker''" 2] h show ?thesis by simp
qed

text \<open>
  Claim C9. When thread \<open>a\<close> calls \<open>SetThreadName\<close>, whatever the outcome, the name slot
  of any other thread \<open>b\<close> is unchanged, and so is the result of \<open>GetThreadName\<close> for
  \<open>b\<close>, whichever thread asks.
\<close>

theorem cross_thread_isolation:
  assumes "a \<noteq> b" and "SetThreadName p os a n = (r, os')"
  shows "descriptions os' b = descriptions os b \<and>
         GetThreadName p os' observer b = GetThreadName p os observer b"
proof -
  from assms(2) have "set_current_thread_name p os a n = (r, os')"
    by (simp add: SetThreadName_def)
  from set_current_thread_name_frame [OF this] assms(1)
  have frame: "get_status os' = get_status os" "descriptions os' b = descriptions os b"
    by auto
  have "get_thread_name p os' observer b = get_thread_name p os observer b"
    unfolding get_thread_name_def GetThreadDescription_def by (simp only: frame)
  with frame show ?thesis
    by (simp add: GetThreadName_def)
qed

theorem cross_thread_isolation_witness:
  "(1::nat) \<noteq> 2 \<and>
   fst (SetThreadName windows_platform os_two_threads 1 ''worker'') = Inr () \<and>
   GetThreadName windows_platform
     (snd (SetThreadName windows_platform os_two_threads 1 ''worker'')) 1 1 = Inr ''worker'' \<and>
   GetThreadName windows_platform
     (snd (SetThreadName windows_platform os_two_threads 1 ''worker'')) 2 2 =
   GetThreadName windows_platform os_two_threads 2 2"
proof -
  let ?r = "SetThreadName windows_platform os_two_threads 1 ''worker''"
  have ne: "(1::nat) \<noteq> 2" by simp
  have set: "?r = (fst ?r, snd ?r)" by simp
  have ok: "fst ?r = Inr ()"
    "GetThreadName windows_platform (snd ?r) 1 1 = Inr ''worker''"
    by (simp_all add: SetThreadName_def GetThreadName_def set_current_thread_name_def
          get_thread_name_def windows_platform_def valid_name_def native_set_def
          SetThreadDescription_def GetThreadDescription_def os_two_threads_def not_FAILED_S_OK)
  from cross_thread_isolation [OF ne set, of 2] ne ok show ?thesis by simp
qed

lemma native_set_outcome:
  "native_set os self m =
     (if FAILED (fst (SetThreadDescription os self m))
      then Inl (NativeFailure (fst (SetThreadDescription os self m)))
      else Inr (),
      snd (SetThreadDescription os self m))"
  by (simp add: native_set_def Let_def)

lemma set_current_thread_name_outcome:
  "set_current_thread_name p os self n = (Inr (), os) \<and> \<not> has_primitive p \<or>
   set_current_thread_name p os self n = (Inl InvalidName, os) \<and> has_primitive p \<or>
   (\<exists>L. set_current_thread_name p os self n = native_set os self (take L n)) \<and> has_primitive p"
proof (cases "has_primitive p")
  case False
  then show ?thesis by (simp add: set_current_thread_name_def)
next
  case hp: True
  show ?thesis
  proof (cases "valid_name p n")
    case False
    with hp show ?thesis by (simp add: set_current_thread_name_def)
  next
    case vn: True
    have whole: "native_set os self n = native_set os self (take (length n) n)"
      by simp
    show ?thesis
    proof (cases "length_rule p")
      case Unbounded
      with hp vn have "set_current_thread_name p os self n = native_set os self n"
        by (simp add: set_current_thread_name_def)
      with whole hp show ?thesis by metis
    next
      case (Truncating L)
      with hp vn have "set_current_thread_name p os self n = native_set os self (take L n)"
        by (simp add: set_current_thread_name_def)
      with hp show ?thesis by blast
    next
      case (Rejecting L)
      show ?thesis
      proof (cases "L < length n")
        case True
        with hp vn Rejecting show ?thesis by (simp add: set_current_thread_name_def)
      next
        case False
        with hp vn Rejecting
        have "set_current_thread_name p os self n = native_set os self n"
          by (simp add: set_current_thread_name_def)
        with whole hp show ?thesis by metis
      qed
    qed
  qed
qed

text \<open>
  Claim C8. Every outcome of the two operations is a typed result. An error of
  \<open>SetThreadName\<close> is \<open>InvalidName\<close> or the \<open>NativeFailure\<close> carrying the failing status
  of the native call it made; it returns success only on a backend without a primitive
  or when the native call reported success, and then the system is as that call left
  it. An error of \<open>GetThreadName\<close> is \<open>Unsupported\<close>, \<open>NotFound\<close> or the
  \<open>NativeFailure\<close> carrying the failing status of the native call; a name is returned
  only on a backend without a primitive (the empty name) or when the native call
  reported success (the buffer it filled).
\<close>

theorem errors_are_typed_results:
  "(\<forall>e. fst (SetThreadName p os self n) = Inl e \<longrightarrow>
        e = InvalidName \<or>
        (\<exists>L. e = NativeFailure (fst (SetThreadDescription os self (take L n))) \<and>
             FAILED (fst (SetThreadDescription os self (take L n))))) \<and>
   (fst (SetThreadName p os self n) = Inr () \<longrightarrow>
        \<not> has_primitive p \<or>
        (\<exists>L. \<not> FAILED (fst (SetThreadDescription os self (take L n))) \<and>
             snd (SetThreadName p os self n) = snd (SetThreadDescription os self (take L n)))) \<and>
   (\<forall>e. GetThreadName p os self h = Inl e \<longrightarrow>
        e = Unsupported \<or> e = NotFound \<or>
        e = NativeFailure (fst (GetThreadDescription os h)) \<and>
        FAILED (fst (GetThreadDescription os h))) \<and>
   (\<forall>nm. GetThreadName p os self h = Inr nm \<longrightarrow>
        \<not> has_primitive p \<and> nm = [] \<or>
        \<not> FAILED (fst (GetThreadDescription os h)) \<and> nm = snd (GetThreadDescription os h))"
proof -
  have set_err: "\<forall>e. fst (SetThreadName p os self n) = Inl e \<longrightarrow>
        e = InvalidName \<or>
        (\<exists>L. e = NativeFailure (fst (SetThreadDescription os self (take L n))) \<and>
             FAILED (fst (SetThreadDescription os self (take L n))))"
    using set_current_thread_name_outcome [of p os self n]
    by (auto simp: SetThreadName_def native_set_outcome split: if_splits)
  have set_ok: "fst (SetThreadName p os self n) = Inr () \<longrightarrow>
        \<not> has_primitive p \<or>
        (\<exists>L. \<not> FAILED (fst (SetThreadDescription os self (take L n))) \<and>
             snd (SetThreadName p os self n) = snd (SetThreadDescription os self (take L n)))"
    using set_current_thread_name_outcome [of p os self n]
    by (auto simp: SetThreadName_def native_set_outcome split: if_splits)
  have get_err: "\<forall>e. GetThreadName p os self h = Inl e \<longrightarrow>
        e = Unsupported \<or> e = NotFound \<or>
        e = NativeFailure (fst (GetThreadDescription os h)) \<and>
        FAILED (fst (GetThreadDescription os h))"
    by (auto simp: GetThreadName_def get_thread_name_def Let_def split: if_splits)
  have get_ok: "\<forall>nm. GetThreadName p os self h = Inr nm \<longrightarrow>
        \<not> has_primitive p \<and> nm = [] \<or>
        \<not> FAILED (fst (GetThreadDescription os h)) \<and> nm = snd (GetThreadDescription os h)"
    by (auto simp: GetThreadName_def get_thread_name_def Let_def split: if_splits)
  from set_err set_ok get_err get_ok show ?thesis by blast
qed

theorem errors_are_typed_results_witness:
  "fst (SetThreadName windows_platform os_set_fails 1 ''worker'') = Inl (NativeFailure E_HANDLE) \<and>
   has_primitive windows_platform \<and>
   (\<exists>L. NativeFailure E_HANDLE =
          NativeFailure (fst (SetThreadDescription os_set_fails 1 (take L ''worker''))) \<and>
        FAILED (fst (SetThreadDescription os_set_fails 1 (take L ''worker''))))"
proof -
  have r: "fst (SetThreadName windows_platform os_set_fails 1 ''worker'') =
           Inl (NativeFailure E_HANDLE)"
    by (simp add: SetThreadName_def set_current_thread_name_def windows_platform_def
          valid_name_def native_set_def SetThreadDescription_def os_set_fails_def
          FAILED_E_HANDLE)
  have p: "has_primitive windows_platform"
    by (simp add: windows_platform_def)
  from errors_are_typed_results [of windows_platform os_set_fails 1 "''worker''" 1] r p
  show ?thesis by auto
qed

end
